theory Spec2Isabelle
  imports Main
begin

section \<open>Data model (service/types.ts)\<close>

text \<open>
  The hook \<open>useSocket\<close> keeps four pieces of React state (application state, connection state,
  the single error slot, reconnection info) and three refs (the socket, the countdown interval,
  the map of listeners added through \<open>on\<close>). Every callback of the source is embedded as a function
  from the hook's state to the hook's state, returning in addition what the callback returns.

  JavaScript numbers are integers here: attempt numbers and counts are \<open>nat\<close>, durations in
  milliseconds are \<open>int\<close>, instants are \<open>nat\<close> (milliseconds since the epoch).
  A state object \<open>TState\<close> (and a \<open>Partial<TState>\<close>) is a finite map from property names to
  values; the spread \<open>{ ...prev, ...update }\<close> is \<open>prev ++ update\<close>.
\<close>

datatype SocketErrorType =
  Connection | Timeout | Authentication | Authorization | Validation | Server | Network | Unknown

type_synonym 'v obj = "string \<rightharpoonup> 'v"

text \<open>The values that the source stores under \<open>details: Record<string, any>\<close> and passes to \<open>emit\<close>.\<close>

datatype 'v any = AObj "'v obj" | AStr string | ANum int | AErr string | AUndefined

record 'v SocketErrorPayload =
  type :: SocketErrorType
  message :: string
  code :: "string option"
  details :: "(string \<times> 'v any) list option"

record 'v SocketError = "'v SocketErrorPayload" +
  timestamp :: nat
  id :: string

record ReconnectionInfo =
  attempt :: nat
  maxAttempts :: nat
  nextRetryIn :: int
  isReconnecting :: bool
  lastFailureReason :: "string option"

record SocketConnectionState =
  isConnected :: bool
  isConnecting :: bool
  connectionId :: "string option"
  connectedAt :: "nat option"
  lastDisconnectedAt :: "nat option"
  disconnectReason :: "string option"

text \<open>
  \<open>UseSocketOptions\<close> after the destructuring at the head of \<open>useSocket\<close>, that is with the
  defaults filled in (\<open>default_options\<close> below); \<open>stateValidator\<close> stays optional.
\<close>

record 'v UseSocketOptions =
  reconnectionAttempts :: nat
  reconnectionDelay :: int
  reconnectionDelayMax :: int
  room :: "string option"
  autoConnect :: bool
  stateValidator :: "('v obj \<Rightarrow> bool) option"

definition default_options :: "'v UseSocketOptions" where
  "default_options =
     \<lparr> reconnectionAttempts = 5, reconnectionDelay = 1000, reconnectionDelayMax = 5000,
       room = None, autoConnect = True, stateValidator = None \<rparr>"

section \<open>The socket, as far as the hook touches it\<close>

text \<open>
  The socket is the client library's object. The hook reads \<open>socket.id\<close> and
  \<open>socket.connected\<close> and calls \<open>on\<close>, \<open>off\<close>, \<open>emit\<close>, \<open>connect\<close>, \<open>disconnect\<close> on it and
  \<open>on\<close>, \<open>off\<close> on \<open>socket.io\<close>. The model keeps the two fields, the identity of the object
  (\<open>sockNo\<close>: closures keep hold of the socket they were made with), the message of the exception
  that \<open>emit\<close> throws, if it throws (the case the \<open>try\<close>/\<open>catch\<close> of \<open>updateState\<close> and
  \<open>replaceState\<close> is for), and the list of the calls made, oldest first. What the library does
  in answer to a call (closing, connecting, dispatching events) reaches the hook as the separate
  invocations of its handlers. A listener function is identified by a number.
\<close>

type_synonym listener = nat

datatype 'v call =
    On string                    \<comment> \<open>\<open>socket.on(event, <handler of the hook>)\<close>\<close>
  | Off string                   \<comment> \<open>\<open>socket.off(event)\<close>\<close>
  | IoOn string                  \<comment> \<open>\<open>socket.io.on(event, <handler of the hook>)\<close>\<close>
  | IoOff string                 \<comment> \<open>\<open>socket.io.off(event)\<close>\<close>
  | OnListener string listener   \<comment> \<open>\<open>socket.on(event, listener)\<close>\<close>
  | OffListener string listener  \<comment> \<open>\<open>socket.off(event, listener)\<close>\<close>
  | Emit string "'v any list"    \<comment> \<open>\<open>socket.emit(event, ...args)\<close>, when it does not throw\<close>
  | ConnectCall                  \<comment> \<open>\<open>socket.connect()\<close>\<close>
  | DisconnectCall               \<comment> \<open>\<open>socket.disconnect()\<close>\<close>

record 'v Socket =
  sockNo :: nat
  sid :: "string option"
  connected :: bool
  emitThrows :: "string option"
  calls :: "'v call list"

section \<open>The state of one hook instance\<close>

text \<open>
  \<open>reconnectionTimerRef\<close> is \<open>Some timeLeft\<close> while an interval is live, \<open>timeLeft\<close> being the
  variable of the closure that the interval's callback decrements, and \<open>None\<close> otherwise.
  \<open>effectActive\<close> says that the last run of the effect returned its cleanup closure, which is
  when the hook's handlers are registered on the socket of \<open>socketRef\<close>.
  \<open>raised\<close> is the sequence of the calls of \<open>handleError\<close>, oldest first: the errors that
  \<open>errorHandler\<close>, when supplied, is called with.
\<close>

record 'v hook =
  state :: "'v obj option"
  connection :: SocketConnectionState
  error :: "'v SocketError option"
  reconnectionInfo :: ReconnectionInfo
  socketRef :: "'v Socket option"
  reconnectionTimerRef :: "int option"
  eventListenersRef :: "string \<rightharpoonup> (string \<times> listener)"
  effectActive :: bool
  raised :: "'v SocketError list"

text \<open>What a callback reads from outside: the clock and the random suffix of the error id.\<close>

record env =
  now :: nat
  rnd :: string

definition initial :: "'v UseSocketOptions \<Rightarrow> 'v hook" where
  "initial opts =
     \<lparr> state = None,
       connection = \<lparr> isConnected = False, isConnecting = False, connectionId = None,
                      connectedAt = None, lastDisconnectedAt = None, disconnectReason = None \<rparr>,
       error = None,
       reconnectionInfo = \<lparr> attempt = 0, maxAttempts = reconnectionAttempts opts, nextRetryIn = 0,
                            isReconnecting = False, lastFailureReason = None \<rparr>,
       socketRef = None,
       reconnectionTimerRef = None,
       eventListenersRef = Map.empty,
       effectActive = False,
       raised = [] \<rparr>"

section \<open>Helpers of useSocket.ts\<close>

definition digit_char :: "nat \<Rightarrow> char" where
  "digit_char d = char_of (48 + d)"

function show_nat :: "nat \<Rightarrow> string" where
  "show_nat n = (if n < 10 then [digit_char n] else show_nat (n div 10) @ [digit_char (n mod 10)])"
  by pat_completeness auto
termination
  by (relation "measure (\<lambda>n. n)") auto

declare show_nat.simps [simp del]

text \<open>\<open>String.prototype.includes\<close>: the second string occurs in the first.\<close>

fun starts_with :: "string \<Rightarrow> string \<Rightarrow> bool" where
  "starts_with s [] = True"
| "starts_with [] (c # p) = False"
| "starts_with (d # s) (c # p) = (d = c \<and> starts_with s p)"

fun str_includes :: "string \<Rightarrow> string \<Rightarrow> bool" where
  "str_includes [] p = starts_with [] p"
| "str_includes (d # s) p = (starts_with (d # s) p \<or> str_includes s p)"

definition generateErrorId :: "env \<Rightarrow> string" where
  "generateErrorId e = ''error_'' @ show_nat (now e) @ ''_'' @ rnd e"

definition createSocketError :: "env \<Rightarrow> 'v SocketErrorPayload \<Rightarrow> 'v SocketError" where
  "createSocketError e payload =
     \<lparr> type = type payload, message = message payload, code = code payload,
       details = details payload, timestamp = now e, id = generateErrorId e \<rparr>"

definition handleError :: "env \<Rightarrow> 'v SocketErrorPayload \<Rightarrow> 'v hook \<Rightarrow> 'v hook" where
  "handleError e errorPayload h =
     (let socketError = createSocketError e errorPayload
      in h\<lparr> error := Some socketError, raised := raised h @ [socketError] \<rparr>)"

definition clearError :: "'v hook \<Rightarrow> 'v hook" where
  "clearError h = h\<lparr> error := None \<rparr>"

definition clearReconnectionTimer :: "'v hook \<Rightarrow> 'v hook" where
  "clearReconnectionTimer h =
     (case reconnectionTimerRef h of
        Some t \<Rightarrow> h\<lparr> reconnectionTimerRef := None \<rparr>
      | None \<Rightarrow> h)"

text \<open>The test \<open>stateValidator && !stateValidator(s)\<close> of the three validating callbacks.\<close>

definition rejected :: "'v UseSocketOptions \<Rightarrow> 'v obj \<Rightarrow> bool" where
  "rejected opts s = (case stateValidator opts of None \<Rightarrow> False | Some v \<Rightarrow> \<not> v s)"

definition socket_call :: "'v call \<Rightarrow> 'v Socket \<Rightarrow> 'v Socket" where
  "socket_call c s = s\<lparr> calls := calls s @ [c] \<rparr>"

section \<open>The effect: opening the socket, its handlers, the cleanup\<close>

text \<open>
  The body of \<open>useEffect\<close>. \<open>io(...)\<close> belongs to the library: the socket it returns is the
  argument \<open>sock\<close>. With \<open>autoConnect\<close> off the body returns at once, without a cleanup closure.
\<close>

definition effect_run :: "'v UseSocketOptions \<Rightarrow> 'v Socket \<Rightarrow> 'v hook \<Rightarrow> 'v hook" where
  "effect_run opts sock h =
     (if \<not> autoConnect opts then h\<lparr> effectActive := False \<rparr>
      else
        h\<lparr> socketRef := Some (sock\<lparr> calls := calls sock @
                 [On ''connect'', On ''disconnect'', On ''connect_error'',
                  IoOn ''reconnect_attempt'', IoOn ''reconnect_failed'',
                  On ''stateUpdate'', On ''statePartialUpdate'', On ''error''] \<rparr>),
           connection := (connection h)\<lparr> isConnecting := True \<rparr>,
           effectActive := True \<rparr>)"

text \<open>
  The closure that the effect returns; React calls it before the effect runs again and on
  unmount. The handlers are taken off first and the socket is closed after, so the close is
  not reported to the \<open>disconnect\<close> handler.
\<close>

definition effect_cleanup :: "'v hook \<Rightarrow> 'v hook" where
  "effect_cleanup h =
     (if \<not> effectActive h then h
      else
        (case socketRef h of
           None \<Rightarrow> h\<lparr> effectActive := False \<rparr>
         | Some socket \<Rightarrow>
             (clearReconnectionTimer h)
               \<lparr> eventListenersRef := Map.empty,
                 socketRef := Some (socket\<lparr> calls := calls socket @
                   [Off ''connect'', Off ''disconnect'', Off ''connect_error'',
                    Off ''stateUpdate'', Off ''statePartialUpdate'', Off ''error'',
                    IoOff ''reconnect_attempt'', IoOff ''reconnect_failed'',
                    DisconnectCall] \<rparr>),
                 effectActive := False \<rparr>))"

text \<open>A render whose dependencies changed: the previous cleanup, then the body.\<close>

definition effect_rerun :: "'v UseSocketOptions \<Rightarrow> 'v Socket \<Rightarrow> 'v hook \<Rightarrow> 'v hook" where
  "effect_rerun opts sock h = effect_run opts sock (effect_cleanup h)"

text \<open>\<open>socket.on('connect', ...)\<close>. \<open>socket.id || undefined\<close> drops an empty id; \<open>if (room)\<close> skips an empty room.\<close>

definition on_connect :: "'v UseSocketOptions \<Rightarrow> env \<Rightarrow> 'v hook \<Rightarrow> 'v hook" where
  "on_connect opts e h =
     (case socketRef h of
        None \<Rightarrow> h
      | Some socket \<Rightarrow>
          (let h1 = h\<lparr> connection :=
                        \<lparr> isConnected = True, isConnecting = False,
                          connectionId = (case sid socket of
                                            None \<Rightarrow> None
                                          | Some i \<Rightarrow> if i = [] then None else Some i),
                          connectedAt = Some (now e),
                          lastDisconnectedAt = None, disconnectReason = None \<rparr>,
                      error := None,
                      reconnectionInfo := (reconnectionInfo h)
                        \<lparr> attempt := 0, isReconnecting := False, nextRetryIn := 0 \<rparr> \<rparr>;
               h2 = clearReconnectionTimer h1
           in (case room opts of
                 None \<Rightarrow> h2
               | Some r \<Rightarrow>
                   if r \<noteq> [] \<and> emitThrows socket = None
                   then h2\<lparr> socketRef := Some (socket_call (Emit ''joinRoom'' [AStr r]) socket) \<rparr>
                   else h2)))"

text \<open>\<open>socket.on('disconnect', (reason, details) => ...)\<close>\<close>

definition on_disconnect :: "env \<Rightarrow> string \<Rightarrow> 'v any \<Rightarrow> 'v hook \<Rightarrow> 'v hook" where
  "on_disconnect e reason dtl h =
     (let h1 = h\<lparr> connection := (connection h)
                    \<lparr> isConnected := False, isConnecting := False,
                      lastDisconnectedAt := Some (now e), disconnectReason := Some reason \<rparr> \<rparr>
      in if reason = ''io server disconnect''
         then handleError e
                \<lparr> type = Connection, message = ''Server forcibly disconnected the socket'',
                  code = None, details = Some [(''reason'', AStr reason), (''details'', dtl)] \<rparr> h1
         else h1)"

text \<open>
  The classification inside the \<open>connect_error\<close> handler: three \<open>if\<close> statements in a row, none
  of them an \<open>else\<close>, each assigning \<open>errorType\<close>.
\<close>

definition connect_error_type :: "string \<Rightarrow> SocketErrorType" where
  "connect_error_type msg =
     (let errorType = Connection;
          errorType = (if str_includes msg ''timeout'' then Timeout else errorType);
          errorType = (if str_includes msg ''auth'' then Authentication else errorType);
          errorType = (if str_includes msg ''unauthorized'' then Authorization else errorType)
      in errorType)"

definition on_connect_error :: "env \<Rightarrow> string \<Rightarrow> 'v hook \<Rightarrow> 'v hook" where
  "on_connect_error e msg h =
     (let h1 = h\<lparr> connection := (connection h)\<lparr> isConnecting := False \<rparr> \<rparr>
      in handleError e
           \<lparr> type = connect_error_type msg, message = msg, code = None,
             details = Some [(''originalError'', AErr msg)] \<rparr> h1)"

text \<open>
  \<open>socket.io.on('reconnect_attempt', attemptNumber => ...)\<close>. The library numbers the attempts
  from 1; for those \<open>Math.pow(2, attemptNumber - 1)\<close> is the integer \<open>2 ^ (attemptNumber - 1)\<close>.
  The handler writes \<open>attempt\<close>, \<open>isReconnecting\<close> and \<open>maxAttempts\<close>, and starts the interval
  with \<open>timeLeft = delay\<close>.
\<close>

definition backoff_delay :: "'v UseSocketOptions \<Rightarrow> nat \<Rightarrow> int" where
  "backoff_delay opts attemptNumber =
     min (reconnectionDelay opts * 2 ^ (attemptNumber - 1)) (reconnectionDelayMax opts)"

definition on_reconnect_attempt :: "'v UseSocketOptions \<Rightarrow> nat \<Rightarrow> 'v hook \<Rightarrow> 'v hook" where
  "on_reconnect_attempt opts attemptNumber h =
     (let h1 = h\<lparr> reconnectionInfo := (reconnectionInfo h)
                    \<lparr> attempt := attemptNumber, isReconnecting := True,
                      maxAttempts := reconnectionAttempts opts \<rparr> \<rparr>;
          h2 = clearReconnectionTimer h1;
          delay = backoff_delay opts attemptNumber;
          timeLeft = delay
      in h2\<lparr> reconnectionTimerRef := Some timeLeft \<rparr>)"

text \<open>The callback of \<open>setInterval(..., 1000)\<close>: it runs each second while the interval is live.\<close>

definition interval_tick :: "'v hook \<Rightarrow> 'v hook" where
  "interval_tick h =
     (case reconnectionTimerRef h of
        None \<Rightarrow> h
      | Some t \<Rightarrow>
          (let timeLeft = max 0 (t - 1000);
               h1 = h\<lparr> reconnectionTimerRef := Some timeLeft,
                        reconnectionInfo := (reconnectionInfo h)\<lparr> nextRetryIn := timeLeft \<rparr> \<rparr>
           in if timeLeft \<le> 0 then clearReconnectionTimer h1 else h1))"

text \<open>\<open>socket.io.on('reconnect_failed', ...)\<close>\<close>

definition on_reconnect_failed :: "'v UseSocketOptions \<Rightarrow> env \<Rightarrow> 'v hook \<Rightarrow> 'v hook" where
  "on_reconnect_failed opts e h =
     (let h1 = clearReconnectionTimer h;
          h2 = h1\<lparr> reconnectionInfo := (reconnectionInfo h1)
                     \<lparr> isReconnecting := False, nextRetryIn := 0 \<rparr> \<rparr>
      in handleError e
           \<lparr> type = Connection,
             message = ''Failed to reconnect after '' @ show_nat (reconnectionAttempts opts)
                       @ '' attempts'',
             code = None,
             details = Some [(''maxAttempts'', ANum (int (reconnectionAttempts opts)))] \<rparr> h2)"

text \<open>\<open>socket.on('stateUpdate', newState => ...)\<close>\<close>

definition on_stateUpdate :: "'v UseSocketOptions \<Rightarrow> env \<Rightarrow> 'v obj \<Rightarrow> 'v hook \<Rightarrow> 'v hook" where
  "on_stateUpdate opts e newState h =
     (if rejected opts newState
      then handleError e
             \<lparr> type = Validation, message = ''Received state failed validation'',
               code = None, details = Some [(''state'', AObj newState)] \<rparr> h
      else h\<lparr> state := Some newState \<rparr>)"

text \<open>
  \<open>socket.on('statePartialUpdate', update => setState(prev => ...))\<close>. A state object is never
  falsy, so \<open>if (!prev) return prev\<close> is the test for \<open>null\<close>.
\<close>

definition on_statePartialUpdate ::
  "'v UseSocketOptions \<Rightarrow> env \<Rightarrow> 'v obj \<Rightarrow> 'v hook \<Rightarrow> 'v hook" where
  "on_statePartialUpdate opts e update h =
     (case state h of
        None \<Rightarrow> h
      | Some prev \<Rightarrow>
          (let newState = prev ++ update
           in if rejected opts newState
              then handleError e
                     \<lparr> type = Validation, message = ''Updated state failed validation'',
                       code = None,
                       details = Some [(''update'', AObj update), (''previousState'', AObj prev)] \<rparr> h
              else h\<lparr> state := Some newState \<rparr>))"

text \<open>\<open>socket.on('error', errorPayload => handleError(errorPayload))\<close>\<close>

definition on_error :: "env \<Rightarrow> 'v SocketErrorPayload \<Rightarrow> 'v hook \<Rightarrow> 'v hook" where
  "on_error e errorPayload h = handleError e errorPayload h"

section \<open>The operations that the hook returns\<close>

text \<open>
  \<open>updateState\<close> and \<open>replaceState\<close> return the promised boolean together with the new state of
  the hook. \<open>!socket?.connected\<close> holds when there is no socket and when the socket is not
  connected.
\<close>

definition updateState :: "env \<Rightarrow> 'v obj \<Rightarrow> 'v hook \<Rightarrow> bool \<times> 'v hook" where
  "updateState e update h =
     (let notConnected =
            (False, handleError e
               \<lparr> type = Connection, message = ''Cannot update state: socket not connected'',
                 code = None, details = Some [(''update'', AObj update)] \<rparr> h)
      in case socketRef h of
           None \<Rightarrow> notConnected
         | Some socket \<Rightarrow>
             if \<not> connected socket then notConnected
             else
               (case emitThrows socket of
                  None \<Rightarrow>
                    (True, h\<lparr> socketRef :=
                               Some (socket_call (Emit ''updateState'' [AObj update]) socket) \<rparr>)
                | Some err \<Rightarrow>
                    (False, handleError e
                       \<lparr> type = Unknown, message = ''Failed to send state update'',
                         code = None,
                         details = Some [(''update'', AObj update), (''error'', AErr err)] \<rparr> h)))"

definition replaceState ::
  "'v UseSocketOptions \<Rightarrow> env \<Rightarrow> 'v obj \<Rightarrow> 'v hook \<Rightarrow> bool \<times> 'v hook" where
  "replaceState opts e newState h =
     (let notConnected =
            (False, handleError e
               \<lparr> type = Connection, message = ''Cannot replace state: socket not connected'',
                 code = None, details = Some [(''newState'', AObj newState)] \<rparr> h)
      in case socketRef h of
           None \<Rightarrow> notConnected
         | Some socket \<Rightarrow>
             if \<not> connected socket then notConnected
             else if rejected opts newState
             then (False, handleError e
                     \<lparr> type = Validation, message = ''New state failed validation'',
                       code = None, details = Some [(''newState'', AObj newState)] \<rparr> h)
             else
               (case emitThrows socket of
                  None \<Rightarrow>
                    (True, h\<lparr> socketRef :=
                               Some (socket_call (Emit ''replaceState'' [AObj newState]) socket) \<rparr>)
                | Some err \<Rightarrow>
                    (False, handleError e
                       \<lparr> type = Unknown, message = ''Failed to send state replacement'',
                         code = None,
                         details = Some [(''newState'', AObj newState), (''error'', AErr err)] \<rparr>
                       h)))"

definition reconnect :: "'v hook \<Rightarrow> 'v hook" where
  "reconnect h =
     (case socketRef h of
        None \<Rightarrow> h
      | Some socket \<Rightarrow> h\<lparr> socketRef := Some (socket_call ConnectCall socket) \<rparr>)"

definition disconnect :: "'v hook \<Rightarrow> 'v hook" where
  "disconnect h =
     (case socketRef h of
        None \<Rightarrow> h
      | Some socket \<Rightarrow>
          if connected socket
          then h\<lparr> socketRef := Some (socket_call DisconnectCall socket) \<rparr>
          else h)"

text \<open>
  \<open>emit\<close> has no \<open>try\<close>: an exception of \<open>socket.emit\<close> leaves through it, and is the first
  component of the result.
\<close>

definition emit :: "string \<Rightarrow> 'v any list \<Rightarrow> 'v hook \<Rightarrow> string option \<times> 'v hook" where
  "emit event args h =
     (case socketRef h of
        None \<Rightarrow> (None, h)
      | Some socket \<Rightarrow>
          if connected socket
          then (case emitThrows socket of
                  None \<Rightarrow> (None, h\<lparr> socketRef := Some (socket_call (Emit event args) socket) \<rparr>)
                | Some err \<Rightarrow> (Some err, h))
          else (None, h))"

text \<open>
  \<open>on\<close> returns a closure: either the empty one, or the one that takes the listener off the
  socket it was added to and deletes its key.
\<close>

datatype unsub = NoopUnsub | Unsub nat string string listener

definition on :: "string \<Rightarrow> listener \<Rightarrow> env \<Rightarrow> 'v hook \<Rightarrow> unsub \<times> 'v hook" where
  "on event lst e h =
     (case socketRef h of
        None \<Rightarrow> (NoopUnsub, h)
      | Some socket \<Rightarrow>
          (let key = event @ ''_'' @ show_nat (now e)
           in (Unsub (sockNo socket) key event lst,
               h\<lparr> socketRef := Some (socket_call (OnListener event lst) socket),
                  eventListenersRef := (eventListenersRef h)(key \<mapsto> (event, lst)) \<rparr>)))"

text \<open>
  Calling the closure that \<open>on\<close> returned. Its \<open>socket.off\<close> goes to the socket of the closure;
  the call is recorded when that socket is still the one of \<open>socketRef\<close>.
\<close>

definition unsubscribe :: "unsub \<Rightarrow> 'v hook \<Rightarrow> 'v hook" where
  "unsubscribe u h =
     (case u of
        NoopUnsub \<Rightarrow> h
      | Unsub no key event lst \<Rightarrow>
          (let h1 = (case socketRef h of
                       None \<Rightarrow> h
                     | Some socket \<Rightarrow>
                         if sockNo socket = no
                         then h\<lparr> socketRef := Some (socket_call (OffListener event lst) socket) \<rparr>
                         else h)
           in h1\<lparr> eventListenersRef := (eventListenersRef h1)(key := None) \<rparr>))"

section \<open>Sequences of calls\<close>

text \<open>
  What the component that uses the hook can do with it: call one of the returned operations,
  call a closure that \<open>on\<close> returned, or render again with changed dependencies.
\<close>

datatype 'v api =
    UpdateState "'v obj"
  | ReplaceState "'v obj"
  | ClearError
  | Reconnect
  | Disconnect
  | EmitEvent string "'v any list"
  | OnEvent string listener
  | Unsubscribe unsub
  | Rerender "'v Socket"

fun api_step :: "'v UseSocketOptions \<Rightarrow> 'v hook \<Rightarrow> env \<times> 'v api \<Rightarrow> 'v hook" where
  "api_step opts h (e, UpdateState update) = snd (updateState e update h)"
| "api_step opts h (e, ReplaceState newState) = snd (replaceState opts e newState h)"
| "api_step opts h (e, ClearError) = clearError h"
| "api_step opts h (e, Reconnect) = reconnect h"
| "api_step opts h (e, Disconnect) = disconnect h"
| "api_step opts h (e, EmitEvent event args) = snd (emit event args h)"
| "api_step opts h (e, OnEvent event lst) = snd (on event lst e h)"
| "api_step opts h (e, Unsubscribe u) = unsubscribe u h"
| "api_step opts h (e, Rerender sock) = effect_rerun opts sock h"

definition mount :: "'v UseSocketOptions \<Rightarrow> 'v Socket \<Rightarrow> 'v hook" where
  "mount opts sock = effect_run opts sock (initial opts)"

definition api_run :: "'v UseSocketOptions \<Rightarrow> 'v Socket \<Rightarrow> (env \<times> 'v api) list \<Rightarrow> 'v hook" where
  "api_run opts sock tr = foldl (api_step opts) (mount opts sock) tr"

text \<open>
  A full update followed by partial updates, each with the clock and random suffix of its
  own delivery.
\<close>

definition apply_partials ::
  "'v UseSocketOptions \<Rightarrow> (env \<times> 'v obj) list \<Rightarrow> 'v hook \<Rightarrow> 'v hook" where
  "apply_partials opts ups h = foldl (\<lambda>h' (e, u). on_statePartialUpdate opts e u h') h ups"

definition merge_all :: "'v obj \<Rightarrow> 'v obj list \<Rightarrow> 'v obj" where
  "merge_all s0 ps = foldl (++) s0 ps"

text \<open>The value of \<open>socket?.connected\<close>, and a socket as \<open>io(...)\<close> hands it over.\<close>

definition socket_connected :: "'v hook \<Rightarrow> bool" where
  "socket_connected h = (case socketRef h of None \<Rightarrow> False | Some socket \<Rightarrow> connected socket)"

definition new_socket :: "nat \<Rightarrow> 'v Socket" where
  "new_socket n = \<lparr> sockNo = n, sid = None, connected = False, emitThrows = None, calls = [] \<rparr>"

section \<open>Example configurations\<close>

text \<open>
  The states of the repository's tests are objects with a \<open>count\<close>. \<open>count_ok\<close> is a validator
  that accepts the states whose count is present and not negative; \<open>validating\<close> are the
  default options with that validator, \<open>quiet\<close> the default options with \<open>autoConnect\<close> off.
\<close>

definition count_ok :: "int obj \<Rightarrow> bool" where
  "count_ok s = (case s ''count'' of None \<Rightarrow> False | Some c \<Rightarrow> 0 \<le> c)"

definition validating :: "int UseSocketOptions" where
  "validating = default_options\<lparr> stateValidator := Some count_ok \<rparr>"

definition quiet :: "int UseSocketOptions" where
  "quiet = default_options\<lparr> autoConnect := False \<rparr>"

section \<open>Substrings\<close>

lemma starts_with_iff: "starts_with s p \<longleftrightarrow> (\<exists>t. s = p @ t)"
  by (induction s p rule: starts_with.induct) auto

lemma str_includes_iff: "str_includes s p \<longleftrightarrow> (\<exists>a b. s = a @ p @ b)"
proof (induction s)
  case Nil
  show ?case by (cases p) auto
next
  case (Cons d s)
  show ?case
  proof
    assume "str_includes (d # s) p"
    then consider "starts_with (d # s) p" | "str_includes s p" by auto
    then show "\<exists>a b. d # s = a @ p @ b"
    proof cases
      case 1
      then obtain t where "d # s = p @ t" unfolding starts_with_iff by blast
      then have "d # s = [] @ p @ t" by simp
      then show ?thesis by blast
    next
      case 2
      then obtain a b where "s = a @ p @ b" using Cons.IH by blast
      then have "d # s = (d # a) @ p @ b" by simp
      then show ?thesis by blast
    qed
  next
    assume "\<exists>a b. d # s = a @ p @ b"
    then obtain a b where ab: "d # s = a @ p @ b" by blast
    show "str_includes (d # s) p"
    proof (cases a)
      case Nil
      with ab have "starts_with (d # s) p" unfolding starts_with_iff by auto
      then show ?thesis by simp
    next
      case (Cons x a')
      with ab have "s = a' @ p @ b" by simp
      then have "str_includes s p" using Cons.IH by blast
      then show ?thesis by simp
    qed
  qed
qed

section \<open>Small facts about the helpers\<close>

lemma clearReconnectionTimer_eq: "clearReconnectionTimer h = h\<lparr> reconnectionTimerRef := None \<rparr>"
  by (cases "reconnectionTimerRef h") (simp_all add: clearReconnectionTimer_def)

lemma rejected_Some: "stateValidator opts = Some v \<Longrightarrow> rejected opts s = (\<not> v s)"
  by (simp add: rejected_def)

lemma validating_validator: "stateValidator validating = Some count_ok"
  by (simp add: validating_def default_options_def)

section \<open>Classification of connect failures\<close>

lemma error_type_on_connect_error:
  "map_option type (error (on_connect_error e msg h)) = Some (connect_error_type msg)"
  by (simp add: on_connect_error_def handleError_def createSocketError_def Let_def)

text \<open>
  C1, as the code has it. The three tests of the \<open>connect_error\<close> handler are not chained by
  \<open>else\<close>, so the last one that matches decides: a message that contains \<open>unauthorized\<close> is an
  authorization failure whatever else it contains; otherwise one that contains \<open>auth\<close> is an
  authentication failure; otherwise one that contains \<open>timeout\<close> is a timeout; any other message
  is a connection failure. The type is read off the error slot after the handler has run.
\<close>

theorem connect_error_priority:
  "map_option type (error (on_connect_error e msg h)) =
     Some (if str_includes msg ''unauthorized'' then Authorization
           else if str_includes msg ''auth'' then Authentication
           else if str_includes msg ''timeout'' then Timeout
           else Connection)"
  by (simp add: error_type_on_connect_error connect_error_type_def Let_def)

text \<open>The message of the repository's own test, \<open>unauthorized access\<close>, which contains \<open>auth\<close> too.\<close>

theorem connect_error_priority_witness:
  "map_option type (error (on_connect_error \<lparr>now = 0, rnd = ''x''\<rparr> ''unauthorized access''
      (initial (default_options :: nat UseSocketOptions)))) = Some Authorization"
  using connect_error_priority [of "\<lparr>now = 0, rnd = ''x''\<rparr>" "''unauthorized access''"
      "initial (default_options :: nat UseSocketOptions)"]
  by simp

text \<open>
  C1, as the claim has it, fails: \<open>authentication timeout\<close> contains \<open>timeout\<close>, and the error
  raised for it is an authentication error.
\<close>

theorem connect_error_timeout_not_first:
  "str_includes ''authentication timeout'' ''timeout'' \<and>
   map_option type (error (on_connect_error \<lparr>now = 0, rnd = ''x''\<rparr> ''authentication timeout''
      (initial (default_options :: nat UseSocketOptions)))) = Some Authentication"
  by (simp add: on_connect_error_def handleError_def createSocketError_def Let_def
      connect_error_type_def)

section \<open>The reconnection countdown\<close>

text \<open>
  The \<open>reconnect_attempt\<close> handler does not write \<open>nextRetryIn\<close>: the field keeps the value it
  had. The delay goes into the interval's \<open>timeLeft\<close>, and the field is first written by the
  interval's callback, one second later, after the first subtraction.
\<close>

lemma on_reconnect_attempt_nextRetryIn:
  "nextRetryIn (reconnectionInfo (on_reconnect_attempt opts n h)) = nextRetryIn (reconnectionInfo h)"
  by (simp add: on_reconnect_attempt_def clearReconnectionTimer_eq Let_def)

lemma on_reconnect_attempt_timer:
  "reconnectionTimerRef (on_reconnect_attempt opts n h) = Some (backoff_delay opts n)"
  by (simp add: on_reconnect_attempt_def clearReconnectionTimer_eq Let_def)

lemma interval_tick_live:
  assumes "reconnectionTimerRef h = Some t"
  shows "nextRetryIn (reconnectionInfo (interval_tick h)) = max 0 (t - 1000)"
    and "reconnectionTimerRef (interval_tick h) = (if t - 1000 \<le> 0 then None else Some (t - 1000))"
  using assms by (auto simp add: interval_tick_def clearReconnectionTimer_eq Let_def max_def)

lemma interval_tick_idle: "reconnectionTimerRef h = None \<Longrightarrow> interval_tick h = h"
  by (simp add: interval_tick_def)

text \<open>After \<open>k + 1\<close> seconds of a live interval the field shows what is left of \<open>timeLeft\<close>.\<close>

lemma ticks_countdown:
  assumes "reconnectionTimerRef h = Some t"
  shows "nextRetryIn (reconnectionInfo ((interval_tick ^^ Suc k) h)) = max 0 (t - 1000 * (1 + int k))"
  using assms
proof (induction k arbitrary: h t)
  case 0
  then show ?case by (simp add: interval_tick_live)
next
  case (Suc k)
  have unfold: "(interval_tick ^^ Suc (Suc k)) h = (interval_tick ^^ Suc k) (interval_tick h)"
    by (simp only: funpow_Suc_right o_apply)
  show ?case
  proof (cases "t - 1000 \<le> 0")
    case True
    with Suc.prems have idle: "reconnectionTimerRef (interval_tick h) = None"
      by (simp add: interval_tick_live)
    have "(interval_tick ^^ n) (interval_tick h) = interval_tick h" for n
      by (induction n) (simp_all add: interval_tick_idle idle)
    then have "(interval_tick ^^ Suc (Suc k)) h = interval_tick h"
      by (simp only: unfold)
    with True Suc.prems show ?thesis by (simp add: interval_tick_live max_def)
  next
    case False
    with Suc.prems have live: "reconnectionTimerRef (interval_tick h) = Some (t - 1000)"
      by (simp add: interval_tick_live)
    show ?thesis
      unfolding unfold using Suc.IH [OF live] by (simp add: algebra_simps)
  qed
qed

lemma countdown_after_attempt:
  "nextRetryIn (reconnectionInfo ((interval_tick ^^ Suc k) (on_reconnect_attempt opts n h))) =
     max 0 (backoff_delay opts n - 1000 * (1 + int k))"
  by (rule ticks_countdown) (rule on_reconnect_attempt_timer)

text \<open>
  C2, at the spec's own example: base delay 1000, cap 5000, attempt 3 on a hook that has just
  been mounted. The delay is 4000, but \<open>nextRetryIn\<close> is still 0 when the notification has been
  handled, and the first value the countdown shows, a second later, is 3000: the field never
  holds 4000.
\<close>

theorem countdown_starts_one_tick_late:
  "backoff_delay (default_options :: nat UseSocketOptions) 3 = 4000 \<and>
   nextRetryIn (reconnectionInfo
     (on_reconnect_attempt default_options 3
        (mount default_options (new_socket 0 :: nat Socket)))) = 0 \<and>
   nextRetryIn (reconnectionInfo (interval_tick
     (on_reconnect_attempt default_options 3
        (mount default_options (new_socket 0 :: nat Socket))))) = 3000"
  by (simp add: on_reconnect_attempt_nextRetryIn on_reconnect_attempt_timer interval_tick_live
      backoff_delay_def default_options_def mount_def effect_run_def initial_def)

section \<open>Inbound state updates\<close>



text \<open>
  C6. A partial update that arrives while the application state is still \<open>null\<close> changes
  nothing at all: the state stays \<open>null\<close>, no validator runs and no error is raised.
\<close>

theorem partial_before_full_noop:
  assumes "state h = None"
  shows "on_statePartialUpdate opts e update h = h"
  using assms by (simp add: on_statePartialUpdate_def)

theorem partial_before_full_noop_witness:
  "state (on_statePartialUpdate validating \<lparr>now = 7, rnd = ''r''\<rparr> [''count'' \<mapsto> 15]
      (mount validating (new_socket 0))) = None"
proof -
  have none: "state (mount validating (new_socket 0)) = None"
    by (simp add: mount_def effect_run_def initial_def)
  show ?thesis
    using partial_before_full_noop [OF none, of validating "\<lparr>now = 7, rnd = ''r''\<rparr>"
        "[''count'' \<mapsto> 15]"] none
    by simp
qed

subsection \<open>A full update followed by partial updates\<close>

lemma apply_partials_Nil: "apply_partials opts [] h = h"
  by (simp add: apply_partials_def)

lemma apply_partials_Cons:
  "apply_partials opts ((e, u) # ups) h = apply_partials opts ups (on_statePartialUpdate opts e u h)"
  by (simp add: apply_partials_def)

lemma merge_all_Cons: "merge_all s (p # ps) = merge_all (s ++ p) ps"
  by (simp add: merge_all_def)

lemma on_statePartialUpdate_accepted:
  "state h = Some prev \<Longrightarrow> \<not> rejected opts (prev ++ u) \<Longrightarrow>
   state (on_statePartialUpdate opts e u h) = Some (prev ++ u)"
  by (simp add: on_statePartialUpdate_def Let_def)

lemma apply_partials_merge:
  assumes "state h = Some s"
    and "\<forall>k\<le>length ups. \<not> rejected opts (merge_all s (map snd (take k ups)))"
  shows "state (apply_partials opts ups h) = Some (merge_all s (map snd ups))"
  using assms
proof (induction ups arbitrary: h s)
  case Nil
  then show ?case by (simp add: apply_partials_Nil merge_all_def)
next
  case (Cons eu ups)
  obtain e u where eu: "eu = (e, u)" by (cases eu)
  have "\<not> rejected opts (merge_all s (map snd (take 1 (eu # ups))))"
    using Cons.prems(2) by (metis One_nat_def Suc_leI length_Cons zero_less_Suc)
  then have acc: "\<not> rejected opts (s ++ u)"
    by (simp add: eu merge_all_def)
  have st: "state (on_statePartialUpdate opts e u h) = Some (s ++ u)"
    using on_statePartialUpdate_accepted [OF Cons.prems(1) acc] .
  have rest: "\<forall>k\<le>length ups. \<not> rejected opts (merge_all (s ++ u) (map snd (take k ups)))"
  proof (intro allI impI)
    fix k assume "k \<le> length ups"
    then have "Suc k \<le> length (eu # ups)" by simp
    then have "\<not> rejected opts (merge_all s (map snd (take (Suc k) (eu # ups))))"
      using Cons.prems(2) by blast
    then show "\<not> rejected opts (merge_all (s ++ u) (map snd (take k ups)))"
      by (simp add: eu merge_all_Cons)
  qed
  show ?case
    using Cons.IH [OF st rest] by (simp add: eu apply_partials_Cons merge_all_Cons)
qed

text \<open>
  C5. A full update \<open>s0\<close> is delivered and then the partial updates \<open>p1, ..., pn\<close> in order.
  The candidates on the way are \<open>s0\<close> itself (what the full update offers to the validator)
  and the merges \<open>s0 ++ p1 ++ ... ++ pk\<close> for \<open>k = 1, ..., n\<close>; \<open>merge_all s0\<close> of the first \<open>k\<close>
  updates is the \<open>k\<close>-th of them. If none of them is rejected (which is so when no validator
  is configured), the application state at the end is the left-to-right shallow merge of
  \<open>s0\<close> with all the updates, whatever the state was before.
\<close>

theorem partial_updates_merge:
  assumes "\<forall>k\<le>length ups. \<not> rejected opts (merge_all s0 (map snd (take k ups)))"
  shows "state (apply_partials opts ups (on_stateUpdate opts e0 s0 h)) =
           Some (merge_all s0 (map snd ups))"
proof -
  have "\<not> rejected opts (merge_all s0 (map snd (take 0 ups)))"
    using assms by blast
  then have "\<not> rejected opts s0" by (simp add: merge_all_def)
  then have "state (on_stateUpdate opts e0 s0 h) = Some s0"
    by (simp add: on_stateUpdate_def)
  then show ?thesis using assms by (rule apply_partials_merge)
qed

text \<open>\<open>{count: 10, name: 1}\<close>, then \<open>{count: 15}\<close>, then \<open>{name: 2}\<close>, under the validator \<open>count_ok\<close>.\<close>

theorem partial_updates_merge_witness:
  "state (apply_partials validating
      [(\<lparr>now = 2, rnd = ''b''\<rparr>, [''count'' \<mapsto> 15]), (\<lparr>now = 3, rnd = ''c''\<rparr>, [''name'' \<mapsto> 2])]
      (on_stateUpdate validating \<lparr>now = 1, rnd = ''a''\<rparr> [''count'' \<mapsto> 10, ''name'' \<mapsto> 1]
         (mount validating (new_socket 0))))
   = Some [''count'' \<mapsto> 15, ''name'' \<mapsto> 2]"
proof -
  let ?ups = "[(\<lparr>now = 2, rnd = ''b''\<rparr>, [''count'' \<mapsto> 15::int]),
               (\<lparr>now = 3, rnd = ''c''\<rparr>, [''name'' \<mapsto> 2])]"
  let ?s0 = "[''count'' \<mapsto> 10::int, ''name'' \<mapsto> 1]"
  have ok: "\<forall>k\<le>length ?ups. \<not> rejected validating (merge_all ?s0 (map snd (take k ?ups)))"
  proof (intro allI impI)
    fix k assume "k \<le> length ?ups"
    then consider "k = 0" | "k = 1" | "k = 2" by fastforce
    then show "\<not> rejected validating (merge_all ?s0 (map snd (take k ?ups)))"
      by cases (simp_all add: rejected_Some [OF validating_validator] merge_all_def count_ok_def)
  qed
  have merged: "merge_all ?s0 (map snd ?ups) = [''count'' \<mapsto> 15, ''name'' \<mapsto> 2]"
    by (rule ext) (simp add: merge_all_def map_add_def)
  show ?thesis
    using partial_updates_merge [OF ok, of "\<lparr>now = 1, rnd = ''a''\<rparr>" "mount validating (new_socket 0)"]
    by (simp only: merged)
qed

section \<open>Outbound state updates\<close>

text \<open>
  C4. When the socket is not connected (there is none, or its \<open>connected\<close> is false),
  \<open>updateState\<close> and \<open>replaceState\<close> return false, and what they do to the hook is one call of
  \<open>handleError\<close> with an error of type connection, which then sits in the error slot.
\<close>

theorem not_connected_fails:
  assumes "\<not> socket_connected h"
  shows "updateState e update h =
           (False, handleError e
              \<lparr> type = Connection, message = ''Cannot update state: socket not connected'',
                code = None, details = Some [(''update'', AObj update)] \<rparr> h)
       \<and> replaceState opts e newState h =
           (False, handleError e
              \<lparr> type = Connection, message = ''Cannot replace state: socket not connected'',
                code = None, details = Some [(''newState'', AObj newState)] \<rparr> h)
       \<and> map_option type (error (snd (updateState e update h))) = Some Connection
       \<and> map_option type (error (snd (replaceState opts e newState h))) = Some Connection"
  using assms
  by (auto simp add: socket_connected_def updateState_def replaceState_def handleError_def
      createSocketError_def Let_def split: option.splits)

text \<open>A hook that has just been mounted: its socket is there and not yet connected.\<close>

theorem not_connected_fails_witness:
  "fst (updateState \<lparr>now = 7, rnd = ''r''\<rparr> [''count'' \<mapsto> 1] (mount validating (new_socket 0)))
     = False
   \<and> map_option type (error (snd (updateState \<lparr>now = 7, rnd = ''r''\<rparr> [''count'' \<mapsto> 1]
        (mount validating (new_socket 0))))) = Some Connection
   \<and> fst (replaceState validating \<lparr>now = 7, rnd = ''r''\<rparr> [''count'' \<mapsto> 100]
        (mount validating (new_socket 0))) = False
   \<and> map_option type (error (snd (replaceState validating \<lparr>now = 7, rnd = ''r''\<rparr>
        [''count'' \<mapsto> 100] (mount validating (new_socket 0))))) = Some Connection"
proof -
  have off: "\<not> socket_connected (mount validating (new_socket 0))"
    by (simp add: socket_connected_def mount_def effect_run_def initial_def new_socket_def
        validating_def default_options_def)
  show ?thesis
    using not_connected_fails [OF off, of "\<lparr>now = 7, rnd = ''r''\<rparr>" "[''count'' \<mapsto> 1]"
        validating "[''count'' \<mapsto> 100]"]
    by (simp add: handleError_def createSocketError_def Let_def)
qed

text \<open>
  C7. \<open>replaceState\<close> on a connected socket with a validator that rejects the new state returns
  false; \<open>handleError\<close> has been called exactly once, with a validation error that carries the
  new state and now sits in the error slot; the application state is the one before; and the
  socket is as it was, so nothing has been sent.
\<close>

theorem replaceState_rejected:
  assumes "socketRef h = Some socket" and "connected socket"
    and "stateValidator opts = Some v" and "\<not> v newState"
  shows "fst (replaceState opts e newState h) = False
       \<and> raised (snd (replaceState opts e newState h)) =
           raised h @ [createSocketError e
              \<lparr> type = Validation, message = ''New state failed validation'', code = None,
                details = Some [(''newState'', AObj newState)] \<rparr>]
       \<and> error (snd (replaceState opts e newState h)) =
           Some (createSocketError e
              \<lparr> type = Validation, message = ''New state failed validation'', code = None,
                details = Some [(''newState'', AObj newState)] \<rparr>)
       \<and> state (snd (replaceState opts e newState h)) = state h
       \<and> socketRef (snd (replaceState opts e newState h)) = socketRef h"
  using assms
  by (simp add: replaceState_def rejected_Some handleError_def Let_def)

text \<open>The spec's example: the validator rejects a full replace of \<open>{count: -5}\<close>.\<close>

theorem replaceState_rejected_witness:
  "fst (replaceState validating \<lparr>now = 7, rnd = ''r''\<rparr> [''count'' \<mapsto> - 5]
      (mount validating ((new_socket 0)\<lparr> connected := True \<rparr>))) = False
   \<and> map_option type (error (snd (replaceState validating \<lparr>now = 7, rnd = ''r''\<rparr>
        [''count'' \<mapsto> - 5] (mount validating ((new_socket 0)\<lparr> connected := True \<rparr>)))))
      = Some Validation
   \<and> length (raised (snd (replaceState validating \<lparr>now = 7, rnd = ''r''\<rparr>
        [''count'' \<mapsto> - 5] (mount validating ((new_socket 0)\<lparr> connected := True \<rparr>))))) = 1
   \<and> state (snd (replaceState validating \<lparr>now = 7, rnd = ''r''\<rparr>
        [''count'' \<mapsto> - 5] (mount validating ((new_socket 0)\<lparr> connected := True \<rparr>)))) = None"
proof -
  let ?h = "mount validating ((new_socket 0)\<lparr> connected := True \<rparr>)"
  obtain socket where sock: "socketRef ?h = Some socket" and conn: "connected socket"
    by (simp add: mount_def effect_run_def initial_def new_socket_def validating_def
        default_options_def)
  have bad: "\<not> count_ok [''count'' \<mapsto> - 5]"
    by (simp add: count_ok_def)
  have before: "raised ?h = []" "state ?h = None"
    by (simp_all add: mount_def effect_run_def initial_def)
  show ?thesis
    using replaceState_rejected [where h = ?h and socket = socket and opts = validating
        and v = count_ok and newState = "[''count'' \<mapsto> - 5]" and e = "\<lparr>now = 7, rnd = ''r''\<rparr>",
        OF sock conn validating_validator bad]
    by (simp add: before createSocketError_def)
qed

section \<open>The connection state\<close>

text \<open>
  C9. The \<open>disconnect\<close> handler writes four fields of the connection state: \<open>isConnected\<close> and
  \<open>isConnecting\<close> become false, \<open>lastDisconnectedAt\<close> the time of the call,
  \<open>disconnectReason\<close> the reason given. \<open>connectionId\<close> and \<open>connectedAt\<close> keep the values of the
  connection that has ended, also when the reason is a disconnect by the server and an error
  is raised.
\<close>

theorem disconnect_frame:
  "connection (on_disconnect e reason dtl h) =
     (connection h)\<lparr> isConnected := False, isConnecting := False,
                     lastDisconnectedAt := Some (now e), disconnectReason := Some reason \<rparr>
   \<and> connectionId (connection (on_disconnect e reason dtl h)) = connectionId (connection h)
   \<and> connectedAt (connection (on_disconnect e reason dtl h)) = connectedAt (connection h)"
  by (simp add: on_disconnect_def handleError_def Let_def)

theorem disconnect_frame_witness:
  "connectionId (connection (on_disconnect \<lparr>now = 9, rnd = ''r''\<rparr> ''io server disconnect''
      AUndefined
      (on_connect default_options \<lparr>now = 5, rnd = ''r''\<rparr>
         (mount (default_options :: nat UseSocketOptions)
            ((new_socket 0)\<lparr> sid := Some ''abc'' \<rparr>))))) = Some ''abc''
   \<and> connectedAt (connection (on_disconnect \<lparr>now = 9, rnd = ''r''\<rparr> ''io server disconnect''
      AUndefined
      (on_connect default_options \<lparr>now = 5, rnd = ''r''\<rparr>
         (mount (default_options :: nat UseSocketOptions)
            ((new_socket 0)\<lparr> sid := Some ''abc'' \<rparr>))))) = Some 5"
  using disconnect_frame [of "\<lparr>now = 9, rnd = ''r''\<rparr>" "''io server disconnect''" AUndefined
      "on_connect default_options \<lparr>now = 5, rnd = ''r''\<rparr>
         (mount (default_options :: nat UseSocketOptions)
            ((new_socket 0)\<lparr> sid := Some ''abc'' \<rparr>))"]
  by (simp add: on_connect_def mount_def effect_run_def initial_def default_options_def
      new_socket_def clearReconnectionTimer_eq Let_def)

subsection \<open>Connected and connecting at once\<close>

text \<open>
  The handlers for \<open>connect\<close>, \<open>disconnect\<close> and \<open>connect_error\<close> never leave both flags set,
  and the start of the effect does not set both on a hook that is not connected.
\<close>

lemma on_connect_flags:
  "\<not> (isConnected (connection h) \<and> isConnecting (connection h)) \<Longrightarrow>
   \<not> (isConnected (connection (on_connect opts e h)) \<and> isConnecting (connection (on_connect opts e h)))"
  by (simp add: on_connect_def clearReconnectionTimer_eq Let_def split: option.splits)

lemma on_disconnect_flags:
  "\<not> (isConnected (connection (on_disconnect e reason dtl h))
      \<and> isConnecting (connection (on_disconnect e reason dtl h)))"
  by (simp add: on_disconnect_def handleError_def Let_def)

lemma on_connect_error_flags:
  "\<not> (isConnected (connection (on_connect_error e msg h))
      \<and> isConnecting (connection (on_connect_error e msg h)))"
  by (simp add: on_connect_error_def handleError_def Let_def)

lemma effect_run_flags:
  "\<not> isConnected (connection h) \<Longrightarrow>
   \<not> (isConnected (connection (effect_run opts sock h))
      \<and> isConnecting (connection (effect_run opts sock h)))"
  by (simp add: effect_run_def)

text \<open>
  The start of the effect sets \<open>isConnecting\<close> and keeps the rest of the connection state, and
  the cleanup before it takes the \<open>disconnect\<close> handler off before it closes the socket, so
  nothing resets \<open>isConnected\<close> in between.
\<close>

lemma effect_rerun_connection:
  "autoConnect opts \<Longrightarrow>
   connection (effect_rerun opts sock h) = (connection h)\<lparr> isConnecting := True \<rparr>"
  by (simp add: effect_rerun_def effect_run_def effect_cleanup_def clearReconnectionTimer_eq
      split: option.splits)

text \<open>
  C8, at a run of the hook: it is mounted with the default options, the socket connects, and
  the component renders again with another room, so that the effect is cleaned up and runs
  again. The hook then reports \<open>isConnected\<close> and \<open>isConnecting\<close> together.
\<close>

theorem connecting_while_connected:
  "isConnected (connection
     (effect_rerun (default_options\<lparr> room := Some ''lobby'' \<rparr>) (new_socket 1)
        (on_connect default_options \<lparr>now = 5, rnd = ''r''\<rparr>
           (mount (default_options :: nat UseSocketOptions) (new_socket 0)))))
   \<and> isConnecting (connection
     (effect_rerun (default_options\<lparr> room := Some ''lobby'' \<rparr>) (new_socket 1)
        (on_connect default_options \<lparr>now = 5, rnd = ''r''\<rparr>
           (mount (default_options :: nat UseSocketOptions) (new_socket 0)))))"
  by (simp add: effect_rerun_def effect_run_def effect_cleanup_def on_connect_def mount_def
      initial_def default_options_def new_socket_def clearReconnectionTimer_def Let_def)

section \<open>A hook with autoConnect off\<close>

text \<open>
  With \<open>autoConnect\<close> off the effect returns before \<open>io(...)\<close>, and nothing else assigns
  \<open>socketRef\<close>: no operation of the hook and no later render brings a socket about. With no
  socket no handler is registered, so the operations and the renders are all that happens.
\<close>

lemma no_socket_step:
  assumes "\<not> autoConnect opts" and "socketRef h = None" and "\<not> effectActive h"
  shows "socketRef (api_step opts h ea) = None \<and> \<not> effectActive (api_step opts h ea)"
proof -
  obtain e a where ea: "ea = (e, a)" by (cases ea)
  show ?thesis
    using assms unfolding ea
    by (cases a)
       (simp_all add: updateState_def replaceState_def clearError_def reconnect_def
          disconnect_def emit_def on_def unsubscribe_def effect_rerun_def effect_run_def
          effect_cleanup_def handleError_def Let_def split: unsub.splits)
qed

lemma no_socket_foldl:
  assumes "\<not> autoConnect opts" and "socketRef h = None" and "\<not> effectActive h"
  shows "socketRef (foldl (api_step opts) h tr) = None
       \<and> \<not> effectActive (foldl (api_step opts) h tr)"
  using assms(2,3)
proof (induction tr arbitrary: h)
  case Nil
  then show ?case by simp
next
  case (Cons ea tr)
  have "socketRef (api_step opts h ea) = None \<and> \<not> effectActive (api_step opts h ea)"
    using no_socket_step [OF assms(1) Cons.prems] .
  then show ?case using Cons.IH by simp
qed

lemma no_socket_run:
  assumes "\<not> autoConnect opts"
  shows "socketRef (api_run opts sock tr) = None"
proof -
  have "socketRef (mount opts sock) = None" "\<not> effectActive (mount opts sock)"
    using assms by (simp_all add: mount_def effect_run_def initial_def)
  then show ?thesis
    unfolding api_run_def using no_socket_foldl [OF assms] by blast
qed

text \<open>
  C10. Let \<open>h\<close> be the hook after it was mounted with \<open>autoConnect\<close> off and any sequence of
  operations and renders followed. Then there is no socket; \<open>updateState\<close> and \<open>replaceState\<close>
  return false and leave an error of type connection; \<open>emit\<close> sends nothing and \<open>reconnect\<close>
  and \<open>disconnect\<close> do nothing (the hook is as before); \<open>on\<close> leaves the hook as it is,
  registering nothing, and calling the closure it returns changes nothing either.
\<close>

theorem autoConnect_off:
  assumes "\<not> autoConnect opts" and "h = api_run opts sock tr"
  shows "socketRef h = None
       \<and> fst (updateState e update h) = False
       \<and> map_option type (error (snd (updateState e update h))) = Some Connection
       \<and> fst (replaceState opts e newState h) = False
       \<and> map_option type (error (snd (replaceState opts e newState h))) = Some Connection
       \<and> emit event args h = (None, h)
       \<and> reconnect h = h
       \<and> disconnect h = h
       \<and> on event lst e h = (NoopUnsub, h)
       \<and> unsubscribe (fst (on event lst e h)) h = h"
proof -
  have none: "socketRef h = None"
    using no_socket_run [OF assms(1)] assms(2) by simp
  then show ?thesis
    by (simp add: updateState_def replaceState_def emit_def reconnect_def disconnect_def on_def
        unsubscribe_def handleError_def createSocketError_def Let_def)
qed

text \<open>After a manual reconnect, a subscription and a render, the hook still has no socket.\<close>

theorem autoConnect_off_witness:
  "socketRef (api_run quiet (new_socket 0)
      [(\<lparr>now = 1, rnd = ''a''\<rparr>, Reconnect),
       (\<lparr>now = 2, rnd = ''b''\<rparr>, OnEvent ''userJoined'' 4),
       (\<lparr>now = 3, rnd = ''c''\<rparr>, Rerender (new_socket 1))]) = None
   \<and> fst (updateState \<lparr>now = 4, rnd = ''d''\<rparr> [''count'' \<mapsto> 1]
        (api_run quiet (new_socket 0)
          [(\<lparr>now = 1, rnd = ''a''\<rparr>, Reconnect),
           (\<lparr>now = 2, rnd = ''b''\<rparr>, OnEvent ''userJoined'' 4),
           (\<lparr>now = 3, rnd = ''c''\<rparr>, Rerender (new_socket 1))])) = False
   \<and> on ''userLeft'' 5 \<lparr>now = 4, rnd = ''d''\<rparr>
        (api_run quiet (new_socket 0)
          [(\<lparr>now = 1, rnd = ''a''\<rparr>, Reconnect),
           (\<lparr>now = 2, rnd = ''b''\<rparr>, OnEvent ''userJoined'' 4),
           (\<lparr>now = 3, rnd = ''c''\<rparr>, Rerender (new_socket 1))])
      = (NoopUnsub, api_run quiet (new_socket 0)
          [(\<lparr>now = 1, rnd = ''a''\<rparr>, Reconnect),
           (\<lparr>now = 2, rnd = ''b''\<rparr>, OnEvent ''userJoined'' 4),
           (\<lparr>now = 3, rnd = ''c''\<rparr>, Rerender (new_socket 1))])"
proof -
  have off: "\<not> autoConnect quiet"
    by (simp add: quiet_def default_options_def)
  show ?thesis
    using autoConnect_off [where opts = quiet and sock = "new_socket 0"
        and tr = "[(\<lparr>now = 1, rnd = ''a''\<rparr>, Reconnect),
                   (\<lparr>now = 2, rnd = ''b''\<rparr>, OnEvent ''userJoined'' 4),
                   (\<lparr>now = 3, rnd = ''c''\<rparr>, Rerender (new_socket 1))]"
        and e = "\<lparr>now = 4, rnd = ''d''\<rparr>" and update = "[''count'' \<mapsto> 1]"
        and newState = "[''count'' \<mapsto> 1]" and event = "''userLeft''" and args = "[]"
        and lst = 5, OF off refl]
    by simp
qed

end
